theory Spec2Isabelle
  imports Complex_Main
begin

section \<open>Image batches\<close>

text \<open>
  A ComfyUI IMAGE is a torch float tensor of shape [B,H,W,C]. The model keeps the
  shape next to the samples, because a tensor with an empty axis still has a shape:
  \<open>vals\<close> is the list of the B images, an image the list of its H rows, a row the list
  of its W pixels, a pixel the list of its C samples.

  A sample is a float: a finite value, an infinity or NaN. The special values are kept,
  since \<open>torch.clamp\<close> and the blend of the seam treat them apart; a finite float is
  taken as the real number it stands for, so the rounding of float arithmetic is left
  out (the blend weights lie in [0, 1], so a blend of finite samples does not overflow).
\<close>

datatype sample = Fin real | PInf | NInf | NaN

record tensor =
  dimB :: nat
  dimH :: nat
  dimW :: nat
  dimC :: nat
  vals :: "sample list list list list"

text \<open>What the samples of a tensor of that shape look like.\<close>

definition wf :: "tensor \<Rightarrow> bool" where
  "wf t \<longleftrightarrow>
     length (vals t) = dimB t \<and>
     (\<forall>img \<in> set (vals t). length img = dimH t \<and>
        (\<forall>row \<in> set img. length row = dimW t \<and>
           (\<forall>px \<in> set row. length px = dimC t)))"

text \<open>
  What a caller can pass as the image argument: something that is no tensor, a tensor
  whose rank is not 4 (only its shape matters, both entry points reject it), or a
  tensor of rank 4.
\<close>

datatype image_arg =
    NonTensor
  | OtherRank "nat list"
  | Tensor4 tensor

text \<open>
  The exceptions of the two entry points. A message built by an f-string is kept as a
  constructor with the formatted value:
  \<open>ValueError_unpack\<close> is Python's failure of \<open>b, h, w, c = image.shape\<close>,
  \<open>ValueError_channels c\<close> is "Expected 3-channel IMAGE, got C={c}",
  \<open>ValueError_shape s\<close> is "Expected images with shape [B,H,W,C], got {s}",
  \<open>ValueError_mode m\<close> is "Unknown mode: {m}".
\<close>

datatype py_error =
    TypeError string
  | ValueError string
  | ValueError_unpack "nat list"
  | ValueError_channels nat
  | ValueError_shape "nat list"
  | ValueError_mode string

subsection \<open>The torch operations the two nodes use\<close>

text \<open>\<open>xs[a:b]\<close> for \<open>0 \<le> a\<close>, \<open>0 \<le> b\<close>.\<close>

definition slice :: "nat \<Rightarrow> nat \<Rightarrow> 'a list \<Rightarrow> 'a list" where
  "slice a b xs = take (b - a) (drop a xs)"

text \<open>
  \<open>xs[a:b] = new\<close>, where \<open>new\<close> has the length of the slice (torch refuses any other
  length; every use below is shown to respect it by the shape lemmas).
\<close>

definition set_slice :: "nat \<Rightarrow> nat \<Rightarrow> 'a list \<Rightarrow> 'a list \<Rightarrow> 'a list" where
  "set_slice a b new xs = take a xs @ new @ drop b xs"

definition map2 :: "('a \<Rightarrow> 'b \<Rightarrow> 'c) \<Rightarrow> 'a list \<Rightarrow> 'b list \<Rightarrow> 'c list" where
  "map2 f xs ys = map (\<lambda>(x, y). f x y) (zip xs ys)"

text \<open>\<open>t[:, :, a:b, :]\<close>\<close>

definition slice_w :: "nat \<Rightarrow> nat \<Rightarrow> tensor \<Rightarrow> tensor" where
  "slice_w a b t =
     t\<lparr>dimW := min b (dimW t) - min a (dimW t),
       vals := map (map (slice a b)) (vals t)\<rparr>"

text \<open>\<open>t[:, y0:y1, x0:x1, :]\<close>\<close>

definition slice_hw :: "nat \<Rightarrow> nat \<Rightarrow> nat \<Rightarrow> nat \<Rightarrow> tensor \<Rightarrow> tensor" where
  "slice_hw y0 y1 x0 x1 t =
     t\<lparr>dimH := min y1 (dimH t) - min y0 (dimH t),
       dimW := min x1 (dimW t) - min x0 (dimW t),
       vals := map (\<lambda>img. map (slice x0 x1) (slice y0 y1 img)) (vals t)\<rparr>"

text \<open>\<open>out[:, :, a:b, :] = src\<close>\<close>

definition assign_w :: "nat \<Rightarrow> nat \<Rightarrow> tensor \<Rightarrow> tensor \<Rightarrow> tensor" where
  "assign_w a b src out =
     out\<lparr>vals := map2 (map2 (\<lambda>orow srow. set_slice a b srow orow)) (vals out) (vals src)\<rparr>"

text \<open>\<open>out[:, y0:y1, x0:x1, :] = src\<close>\<close>

definition assign_hw :: "nat \<Rightarrow> nat \<Rightarrow> nat \<Rightarrow> nat \<Rightarrow> tensor \<Rightarrow> tensor \<Rightarrow> tensor" where
  "assign_hw y0 y1 x0 x1 src out =
     out\<lparr>vals := map2 (\<lambda>oimg simg.
              set_slice y0 y1
                (map2 (\<lambda>orow srow. set_slice x0 x1 srow orow) (slice y0 y1 oimg) simg)
                oimg)
            (vals out) (vals src)\<rparr>"

text \<open>
  \<open>torch.roll\<close> along one axis: the element at index i moves to index
  \<open>(i + s) mod n\<close>; \<open>rotate k\<close> moves the element at index \<open>k\<close> to the front.
\<close>

definition roll :: "int \<Rightarrow> 'a list \<Rightarrow> 'a list" where
  "roll s xs = (if xs = [] then [] else rotate (nat ((- s) mod int (length xs))) xs)"

text \<open>\<open>torch.roll(t, shifts=(sy, sx), dims=(1, 2))\<close>\<close>

definition roll_hw :: "int \<Rightarrow> int \<Rightarrow> tensor \<Rightarrow> tensor" where
  "roll_hw sy sx t = t\<lparr>vals := map (\<lambda>img. roll sy (map (roll sx) img)) (vals t)\<rparr>"

text \<open>\<open>torch.tensor(px).view(1, 1, 1, 3).expand(b, h, w, 3).clone()\<close>\<close>

definition full :: "nat \<Rightarrow> nat \<Rightarrow> nat \<Rightarrow> sample list \<Rightarrow> tensor" where
  "full b h w px =
     \<lparr>dimB = b, dimH = h, dimW = w, dimC = length px,
      vals = replicate b (replicate h (replicate w px))\<rparr>"

text \<open>\<open>torch.zeros((b, h, w, c))\<close>\<close>

definition zeros :: "nat \<Rightarrow> nat \<Rightarrow> nat \<Rightarrow> nat \<Rightarrow> tensor" where
  "zeros b h w c = full b h w (replicate c (Fin 0))"

text \<open>\<open>torch.cat([a, b], dim=2)\<close>\<close>

definition cat_w :: "tensor \<Rightarrow> tensor \<Rightarrow> tensor" where
  "cat_w a b = a\<lparr>dimW := dimW a + dimW b, vals := map2 (map2 (@)) (vals a) (vals b)\<rparr>"

text \<open>
  \<open>torch.clamp(x, 0.0, 1.0)\<close> on one sample: an infinity goes to the nearer bound, NaN
  stays NaN.
\<close>

fun clamp_sample :: "sample \<Rightarrow> sample" where
  "clamp_sample (Fin v) = Fin (min (max v 0) 1)"
| "clamp_sample PInf = Fin 1"
| "clamp_sample NInf = Fin 0"
| "clamp_sample NaN = NaN"

text \<open>\<open>torch.clamp(t, 0.0, 1.0)\<close>\<close>

definition clamp01 :: "tensor \<Rightarrow> tensor" where
  "clamp01 t = t\<lparr>vals := map (map (map (map clamp_sample))) (vals t)\<rparr>"

text \<open>
  Float product of a sample with a finite weight \<open>w\<close>: an infinity times zero is NaN.
\<close>

fun scale :: "sample \<Rightarrow> real \<Rightarrow> sample" where
  "scale (Fin v) w = Fin (v * w)"
| "scale PInf w = (if w = 0 then NaN else if 0 < w then PInf else NInf)"
| "scale NInf w = (if w = 0 then NaN else if 0 < w then NInf else PInf)"
| "scale NaN w = NaN"

text \<open>Float sum: NaN absorbs, and opposite infinities give NaN.\<close>

fun plus_sample :: "sample \<Rightarrow> sample \<Rightarrow> sample" where
  "plus_sample (Fin a) (Fin b) = Fin (a + b)"
| "plus_sample NaN y = NaN"
| "plus_sample x NaN = NaN"
| "plus_sample PInf NInf = NaN"
| "plus_sample NInf PInf = NaN"
| "plus_sample PInf y = PInf"
| "plus_sample x PInf = PInf"
| "plus_sample NInf y = NInf"
| "plus_sample x NInf = NInf"

text \<open>\<open>t.clone()\<close>: a new tensor with the same shape and samples.\<close>

definition clone :: "tensor \<Rightarrow> tensor" where
  "clone t = t"

text \<open>
  \<open>torch.linspace(0.0, 1.0, steps=f)\<close>: no value for \<open>f = 0\<close>, the start alone for
  \<open>f = 1\<close>, else the f evenly spaced values from 0 to 1.
\<close>

definition linspace01 :: "nat \<Rightarrow> real list" where
  "linspace01 f = map (\<lambda>i. if f = 1 then 0 else real i / real (f - 1)) [0..<f]"

text \<open>Python's \<open>round\<close> on a float: to the nearest integer, a tie to the even one.\<close>

definition py_round :: "real \<Rightarrow> int" where
  "py_round x =
     (let f = \<lfloor>x\<rfloor>; d = x - of_int f
      in if d < 1 / 2 then f
         else if 1 / 2 < d then f + 1
         else if even f then f else f + 1)"

section \<open>MuffinsOffsetNode\<close>

text \<open>
  The offset of one axis in pixels, before normalization (source lines 57 to 71). The
  product of the percent branch is taken over the reals, where the source takes it in
  double precision; the theorems below hold for every value of that branch.
\<close>

definition raw_px :: "bool \<Rightarrow> string \<Rightarrow> real \<Rightarrow> nat \<Rightarrow> int" where
  "raw_px auto_half units off n =
     (if auto_half then int n div 2
      else if units = ''percent'' then py_round ((off / 100) * real n)
      else py_round off)"

text \<open>Normalization of one axis (source lines 74 to 82).\<close>

definition normalize_px :: "nat \<Rightarrow> int \<Rightarrow> int" where
  "normalize_px n px =
     (if n \<noteq> 0
      then (let m = px mod int n in if m > int n div 2 then m - int n else m)
      else px)"

definition resolved_px :: "bool \<Rightarrow> string \<Rightarrow> real \<Rightarrow> nat \<Rightarrow> int" where
  "resolved_px auto_half units off n = normalize_px n (raw_px auto_half units off n)"

text \<open>
  Source and destination start and the copy length of one axis (source lines 106 to 118).
\<close>

definition src0 :: "int \<Rightarrow> int" where
  "src0 px = (if px \<ge> 0 then 0 else - px)"

definition dst0 :: "int \<Rightarrow> int" where
  "dst0 px = (if px \<ge> 0 then px else 0)"

definition copy_len :: "nat \<Rightarrow> int \<Rightarrow> int" where
  "copy_len n px = (if px \<ge> 0 then int n - px else int n + px)"

text \<open>The canvas of the non-wrapping modes (source lines 96 to 101).\<close>

definition canvas :: "string \<Rightarrow> nat \<Rightarrow> nat \<Rightarrow> nat \<Rightarrow> real \<Rightarrow> real \<Rightarrow> real \<Rightarrow> tensor" where
  "canvas edge_mode b h w fill_r fill_g fill_b =
     (if edge_mode = ''fill_color'' then full b h w [Fin fill_r, Fin fill_g, Fin fill_b]
      else zeros b h w 3)"

text \<open>The paste of source lines 123 and 124.\<close>

definition paste :: "tensor \<Rightarrow> tensor \<Rightarrow> int \<Rightarrow> int \<Rightarrow> tensor" where
  "paste out img x_px y_px =
     (let w = dimW img; h = dimH img;
          sx = nat (src0 x_px); dx = nat (dst0 x_px); wc = nat (copy_len w x_px);
          sy = nat (src0 y_px); dy = nat (dst0 y_px); hc = nat (copy_len h y_px)
      in assign_hw dy (dy + hc) dx (dx + wc)
           (slice_hw sy (sy + hc) sx (sx + wc) img) out)"

definition offset ::
  "image_arg \<Rightarrow> string \<Rightarrow> real \<Rightarrow> real \<Rightarrow> bool \<Rightarrow> bool \<Rightarrow> string \<Rightarrow> real \<Rightarrow> real \<Rightarrow> real
     \<Rightarrow> py_error + tensor" where
  "offset img units x_offset y_offset auto_half_width auto_half_height edge_mode
       fill_r fill_g fill_b =
     (case img of
        NonTensor \<Rightarrow> Inl (TypeError ''Expected IMAGE as a torch.Tensor'')
      | OtherRank shp \<Rightarrow> Inl (ValueError_unpack shp)
      | Tensor4 t \<Rightarrow>
          if dimC t \<noteq> 3 then Inl (ValueError_channels (dimC t))
          else
            let x_px = resolved_px auto_half_width units x_offset (dimW t);
                y_px = resolved_px auto_half_height units y_offset (dimH t)
            in if x_px = 0 \<and> y_px = 0 then Inr t
               else if edge_mode = ''wrap'' then Inr (roll_hw y_px x_px t)
               else
                 let out = canvas edge_mode (dimB t) (dimH t) (dimW t) fill_r fill_g fill_b
                 in if copy_len (dimW t) x_px \<le> 0 \<or> copy_len (dimH t) y_px \<le> 0
                    then Inr out
                    else Inr (paste out t x_px y_px))"

section \<open>VR180StereoTools\<close>

definition odd_width_msg :: string where
  "odd_width_msg = ''Width is odd and even_width_handling='skip'. Can't split evenly.''"

definition ensure_even_width :: "tensor \<Rightarrow> string \<Rightarrow> tensor" where
  "ensure_even_width images even_width_handling =
     (if even_width_handling = ''skip'' then images
      else if dimW images mod 2 \<noteq> 0 then slice_w 0 (dimW images - 1) images
      else images)"

text \<open>
  The blend of source line 72 on one row: \<open>ramp\<close> has one value per column of the
  band and is broadcast over the samples of the pixel.
\<close>

definition blend_px :: "real \<Rightarrow> sample list \<Rightarrow> sample list \<Rightarrow> sample list" where
  "blend_px r lp rp = map2 (\<lambda>l k. plus_sample (scale l (1 - r)) (scale k r)) lp rp"

definition blend_row ::
  "real list \<Rightarrow> sample list list \<Rightarrow> sample list list \<Rightarrow> sample list list" where
  "blend_row ramp lrow rrow = map2 (\<lambda>r (lp, rp). blend_px r lp rp) ramp (zip lrow rrow)"

definition blend :: "real list \<Rightarrow> tensor \<Rightarrow> tensor \<Rightarrow> tensor" where
  "blend ramp left_band right_band =
     left_band\<lparr>vals := map2 (map2 (blend_row ramp)) (vals left_band) (vals right_band)\<rparr>"

definition seam_feather_fn :: "tensor \<Rightarrow> int \<Rightarrow> nat \<Rightarrow> tensor" where
  "seam_feather_fn out seam_feather half_width =
     (if seam_feather = 0 \<or> seam_feather \<le> 0 then out
      else
        let f = nat (min seam_feather (int half_width));
            seam_l_start = half_width - f;
            seam_l_end = half_width;
            seam_r_start = half_width;
            seam_r_end = half_width + f;
            ramp = linspace01 f;
            left_band = slice_w seam_l_start seam_l_end out;
            right_band = slice_w seam_r_start seam_r_end out;
            blended = blend ramp left_band right_band;
            out1 = assign_w seam_l_start seam_l_end blended out
        in assign_w seam_r_start seam_r_end blended out1)"

text \<open>The concatenation of source lines 114 to 123.\<close>

definition build_copy :: "string \<Rightarrow> string \<Rightarrow> tensor \<Rightarrow> tensor \<Rightarrow> tensor" where
  "build_copy output_layout source_half src other =
     (if output_layout = ''parallel''
      then (if source_half = ''left'' then cat_w src other else cat_w other src)
      else cat_w src other)"

text \<open>The concatenation of source lines 135 to 140.\<close>

definition build_mono :: "string \<Rightarrow> tensor \<Rightarrow> tensor \<Rightarrow> tensor" where
  "build_mono output_layout mono_img other =
     (if output_layout = ''parallel'' then cat_w mono_img other else cat_w mono_img other)"

definition apply_fn ::
  "image_arg \<Rightarrow> string \<Rightarrow> string \<Rightarrow> string \<Rightarrow> string \<Rightarrow> int \<Rightarrow> py_error + tensor" where
  "apply_fn images_in mode source_half output_layout even_width_handling seam_feather =
     (case images_in of
        NonTensor \<Rightarrow> Inl (ValueError ''images must be a torch Tensor'')
      | OtherRank shp \<Rightarrow> Inl (ValueError_shape shp)
      | Tensor4 t \<Rightarrow>
          let images = ensure_even_width t even_width_handling;
              W = dimW images
          in if mode = ''even_crop_only'' then Inr (clamp01 images)
             else if mode = ''sbs_extract_half'' then
               (if W mod 2 \<noteq> 0 then Inl (ValueError odd_width_msg)
                else
                  let half = W div 2;
                      left = slice_w 0 half images;
                      right = slice_w half W images;
                      out = (if source_half = ''left'' then left else right)
                  in Inr (clamp01 out))
             else if mode = ''sbs_copy_half_to_stereo'' then
               (if W mod 2 \<noteq> 0 then Inl (ValueError odd_width_msg)
                else
                  let half = W div 2;
                      left = slice_w 0 half images;
                      right = slice_w half W images;
                      src = (if source_half = ''left'' then left else right);
                      other = clone src;
                      out = build_copy output_layout source_half src other
                  in Inr (clamp01 (seam_feather_fn out seam_feather half)))
             else if mode = ''mono_to_stereo_copy'' then
               (let mono_img = images;
                    half = dimW mono_img;
                    other = clone mono_img;
                    out = build_mono output_layout mono_img other
                in Inr (clamp01 (seam_feather_fn out seam_feather half)))
             else Inl (ValueError_mode mode))"


section \<open>Predicates on the samples of a batch\<close>

text \<open>Every sample of the batch satisfies \<open>P\<close>.\<close>

definition all_samples :: "(sample \<Rightarrow> bool) \<Rightarrow> tensor \<Rightarrow> bool" where
  "all_samples P t \<longleftrightarrow>
     (\<forall>img \<in> set (vals t). \<forall>row \<in> set img. \<forall>px \<in> set row. \<forall>v \<in> set px. P v)"

fun is_fin :: "sample \<Rightarrow> bool" where
  "is_fin (Fin v) = True"
| "is_fin x = False"

text \<open>The sample is a number of the unit interval.\<close>

fun unit_sample :: "sample \<Rightarrow> bool" where
  "unit_sample (Fin v) = (0 \<le> v \<and> v \<le> 1)"
| "unit_sample x = False"

definition in_unit :: "tensor \<Rightarrow> bool" where
  "in_unit t = all_samples unit_sample t"

definition finite_samples :: "tensor \<Rightarrow> bool" where
  "finite_samples t = all_samples is_fin t"

definition unit_or_nan :: "tensor \<Rightarrow> bool" where
  "unit_or_nan t = all_samples (\<lambda>v. v = NaN \<or> unit_sample v) t"

section \<open>Sample batches\<close>

text \<open>One row of two pixels, with samples outside the unit interval.\<close>

definition sample_sbs :: tensor where
  "sample_sbs = \<lparr>dimB = 1, dimH = 1, dimW = 2, dimC = 3,
                  vals = [[[[Fin (- 1), Fin 2, Fin (1 / 2)], [Fin 3, Fin (1 / 4), Fin (- 4)]]]]\<rparr>"

text \<open>One row of three pixels.\<close>

definition sample_odd :: tensor where
  "sample_odd = \<lparr>dimB = 1, dimH = 1, dimW = 3, dimC = 3,
                  vals = [[[[Fin 0, Fin 1, Fin (1 / 2)], [Fin 1, Fin (1 / 4), Fin 0],
                            [Fin 1, Fin 1, Fin 1]]]]\<rparr>"


text \<open>One pixel with a NaN sample.\<close>

definition sample_nan :: tensor where
  "sample_nan = \<lparr>dimB = 1, dimH = 1, dimW = 1, dimC = 3, vals = [[[[NaN, Fin 0, Fin 0]]]]\<rparr>"

text \<open>One pixel with an infinite sample.\<close>

definition sample_inf :: tensor where
  "sample_inf = \<lparr>dimB = 1, dimH = 1, dimW = 1, dimC = 3, vals = [[[[PInf, Fin 0, Fin 0]]]]\<rparr>"

text \<open>Two rows of one pixel.\<close>

definition sample_tall :: tensor where
  "sample_tall = \<lparr>dimB = 1, dimH = 2, dimW = 1, dimC = 3,
                   vals = [[[[Fin 1, Fin (1 / 2), Fin 0]], [[Fin 0, Fin 0, Fin 1]]]]\<rparr>"

section \<open>Offset normalization\<close>

lemma sym_range:
  "0 \<le> (m::int) \<Longrightarrow> m < d \<Longrightarrow>
     - d < 2 * (if m > d div 2 then m - d else m) \<and> 2 * (if m > d div 2 then m - d else m) \<le> d"
proof (cases "m > d div 2")
  case True
  assume "0 \<le> m" "m < d"
  with True show ?thesis by (simp; arith)
next
  case False
  assume "0 \<le> m" "m < d"
  with False show ?thesis by (simp; arith)
qed

lemma normalize_px_range:
  assumes "n \<ge> 1"
  shows "- int n < 2 * normalize_px n px \<and> 2 * normalize_px n px \<le> int n"
proof -
  have d: "0 < int n" using assms by simp
  have m: "0 \<le> px mod int n" "px mod int n < int n" using d by simp_all
  have "normalize_px n px =
          (if px mod int n > int n div 2 then px mod int n - int n else px mod int n)"
    using assms by (simp add: normalize_px_def Let_def)
  then show ?thesis using sym_range [OF m] by simp
qed

lemma normalize_px_tie:
  assumes "n \<ge> 1" "px mod int n = int n div 2"
  shows "normalize_px n px = int n div 2"
  using assms by (simp add: normalize_px_def Let_def)

lemma copy_len_pos:
  assumes "n \<ge> 1"
  shows "0 < copy_len n (normalize_px n px)"
  using normalize_px_range [OF assms, of px] by (simp add: copy_len_def)

text \<open>
  C1. On an input of width W and height H, both at least 1, the offsets that
  \<open>offset\<close> resolves (from pixels, from percent or from the auto-half flags) satisfy
  \<open>-W/2 < x_px \<le> W/2\<close> and \<open>-H/2 < y_px \<le> H/2\<close>, written here without division;
  and on an even dimension a raw offset congruent to half the dimension normalizes to
  plus half the dimension.
\<close>

theorem offset_px_symmetric_range:
  assumes "1 \<le> dimW t" and "1 \<le> dimH t"
  shows "(let x_px = resolved_px auto_half_width units x_offset (dimW t);
              y_px = resolved_px auto_half_height units y_offset (dimH t)
          in - int (dimW t) < 2 * x_px \<and> 2 * x_px \<le> int (dimW t) \<and>
             - int (dimH t) < 2 * y_px \<and> 2 * y_px \<le> int (dimH t)) \<and>
         (\<forall>raw. even (dimW t) \<and> raw mod int (dimW t) = int (dimW t) div 2
             \<longrightarrow> normalize_px (dimW t) raw = int (dimW t) div 2) \<and>
         (\<forall>raw. even (dimH t) \<and> raw mod int (dimH t) = int (dimH t) div 2
             \<longrightarrow> normalize_px (dimH t) raw = int (dimH t) div 2)"
  using normalize_px_range [OF assms(1)] normalize_px_range [OF assms(2)]
    normalize_px_tie [OF assms(1)] normalize_px_tie [OF assms(2)]
  by (simp add: resolved_px_def Let_def)

theorem offset_px_symmetric_range_witness:
  "1 \<le> dimW (zeros 1 3 4 3) \<and> 1 \<le> dimH (zeros 1 3 4 3) \<and>
   resolved_px False ''pixels'' 6 4 = 2 \<and> resolved_px False ''pixels'' 2 3 = - 1 \<and>
   - 4 < 2 * resolved_px False ''pixels'' 6 4 \<and> 2 * resolved_px False ''pixels'' 6 4 \<le> 4 \<and>
   - 3 < 2 * resolved_px False ''pixels'' 2 3 \<and> 2 * resolved_px False ''pixels'' 2 3 \<le> 3 \<and>
   normalize_px 4 (- 2) = 2"
proof -
  have w: "1 \<le> dimW (zeros 1 3 4 3)" and h: "1 \<le> dimH (zeros 1 3 4 3)"
    by (simp_all add: zeros_def full_def)
  have v: "resolved_px False ''pixels'' 6 4 = 2" "resolved_px False ''pixels'' 2 3 = - 1"
    by (simp_all add: resolved_px_def raw_px_def normalize_px_def py_round_def Let_def)
  from offset_px_symmetric_range [OF w h, of False "''pixels''" 6 False 2]
  show ?thesis using w h v by (simp add: zeros_def full_def Let_def)
qed

text \<open>
  C9. On an input of width and height at least 1, the copy lengths computed from the
  resolved offsets are both strictly positive, so the guard of source line 120 is not
  taken: on the fill path \<open>offset\<close> returns the canvas with the shifted image pasted.
\<close>

theorem fill_path_copy_lengths_positive:
  assumes "1 \<le> dimW t" and "1 \<le> dimH t"
  shows "let x_px = resolved_px auto_half_width units x_offset (dimW t);
             y_px = resolved_px auto_half_height units y_offset (dimH t)
         in 0 < copy_len (dimW t) x_px \<and> 0 < copy_len (dimH t) y_px \<and>
            (dimC t = 3 \<and> \<not> (x_px = 0 \<and> y_px = 0) \<and> edge_mode \<noteq> ''wrap'' \<longrightarrow>
               offset (Tensor4 t) units x_offset y_offset auto_half_width auto_half_height
                   edge_mode fill_r fill_g fill_b
                 = Inr (paste (canvas edge_mode (dimB t) (dimH t) (dimW t) fill_r fill_g fill_b)
                          t x_px y_px))"
proof -
  have x: "0 < copy_len (dimW t) (resolved_px auto_half_width units x_offset (dimW t))"
    unfolding resolved_px_def by (rule copy_len_pos [OF assms(1)])
  have y: "0 < copy_len (dimH t) (resolved_px auto_half_height units y_offset (dimH t))"
    unfolding resolved_px_def by (rule copy_len_pos [OF assms(2)])
  show ?thesis using x y by (auto simp: offset_def Let_def)
qed

theorem fill_path_copy_lengths_positive_witness:
  "1 \<le> dimW sample_tall \<and> 1 \<le> dimH sample_tall \<and>
   resolved_px False ''pixels'' 0 1 = 0 \<and> resolved_px False ''pixels'' 1 2 = 1 \<and>
   0 < copy_len 1 0 \<and> 0 < copy_len 2 1 \<and>
   offset (Tensor4 sample_tall) ''pixels'' 0 1 False False ''fill_color'' (1 / 4) (1 / 2) (3 / 4)
     = Inr (paste (canvas ''fill_color'' 1 2 1 (1 / 4) (1 / 2) (3 / 4)) sample_tall 0 1) \<and>
   paste (canvas ''fill_color'' 1 2 1 (1 / 4) (1 / 2) (3 / 4)) sample_tall 0 1
     = \<lparr>dimB = 1, dimH = 2, dimW = 1, dimC = 3,
        vals = [[[[Fin (1 / 4), Fin (1 / 2), Fin (3 / 4)]], [[Fin 1, Fin (1 / 2), Fin 0]]]]\<rparr>"
proof -
  have w: "1 \<le> dimW sample_tall" and h: "1 \<le> dimH sample_tall"
    by (simp_all add: sample_tall_def)
  have d: "dimB sample_tall = 1" "dimH sample_tall = 2" "dimW sample_tall = 1"
    "dimC sample_tall = 3"
    by (simp_all add: sample_tall_def)
  have v: "resolved_px False ''pixels'' 0 1 = 0" "resolved_px False ''pixels'' 1 2 = 1"
    by (simp_all add: resolved_px_def raw_px_def normalize_px_def py_round_def Let_def)
  have p: "paste (canvas ''fill_color'' 1 2 1 (1 / 4) (1 / 2) (3 / 4)) sample_tall 0 1
     = \<lparr>dimB = 1, dimH = 2, dimW = 1, dimC = 3,
        vals = [[[[Fin (1 / 4), Fin (1 / 2), Fin (3 / 4)]], [[Fin 1, Fin (1 / 2), Fin 0]]]]\<rparr>"
    by (simp add: paste_def canvas_def full_def sample_tall_def Let_def src0_def dst0_def
        copy_len_def assign_hw_def slice_hw_def slice_def set_slice_def map2_def)
  from fill_path_copy_lengths_positive [OF w h, of False "''pixels''" 0 False 1
      "''fill_color''" "1 / 4" "1 / 2" "3 / 4"]
  show ?thesis using w h v p by (simp add: d Let_def)
qed

section \<open>Errors and parameters of the stereo node\<close>

lemma dimW_ensure_even:
  "odd (dimW (ensure_even_width t ewh)) \<longleftrightarrow> odd (dimW t) \<and> ewh = ''skip''"
  by (auto simp: ensure_even_width_def slice_w_def)

lemma dimW_ensure_even_mod:
  "dimW (ensure_even_width t ewh) mod 2 \<noteq> 0 \<longleftrightarrow> odd (dimW t) \<and> ewh = ''skip''"
  using dimW_ensure_even [of t ewh] by (simp add: odd_iff_mod_2_eq_one)

text \<open>
  C5. In the modes sbs_extract_half and sbs_copy_half_to_stereo, \<open>apply\<close> fails with
  the odd-width error exactly when the width after even-width normalization is odd,
  that is exactly when the input width is odd and even_width_handling is skip; with
  auto_crop_if_odd the call returns a batch, whatever the input width.
\<close>

theorem odd_width_error_iff:
  assumes "mode = ''sbs_extract_half'' \<or> mode = ''sbs_copy_half_to_stereo''"
  shows "(apply_fn (Tensor4 t) mode source_half output_layout even_width_handling seam_feather
            = Inl (ValueError odd_width_msg)
          \<longleftrightarrow> odd (dimW (ensure_even_width t even_width_handling))) \<and>
         (odd (dimW (ensure_even_width t even_width_handling))
          \<longleftrightarrow> odd (dimW t) \<and> even_width_handling = ''skip'') \<and>
         (\<exists>r. apply_fn (Tensor4 t) mode source_half output_layout ''auto_crop_if_odd'' seam_feather
            = Inr r)"
proof -
  have raised:
    "apply_fn (Tensor4 t) mode source_half output_layout ewh seam_feather
       = Inl (ValueError odd_width_msg)
     \<longleftrightarrow> dimW (ensure_even_width t ewh) mod 2 \<noteq> 0" for ewh
    using assms by (cases "dimW (ensure_even_width t ewh) mod 2 = 0")
      (auto simp: apply_fn_def Let_def)
  have "\<not> (odd (dimW t) \<and> ''auto_crop_if_odd'' = ''skip'')" by simp
  then have even_crop: "dimW (ensure_even_width t ''auto_crop_if_odd'') mod 2 = 0"
    using dimW_ensure_even_mod [of t "''auto_crop_if_odd''"] by blast
  have returns:
    "\<exists>r. apply_fn (Tensor4 t) mode source_half output_layout ''auto_crop_if_odd'' seam_feather
       = Inr r"
    using assms even_crop by (auto simp: apply_fn_def Let_def)
  show ?thesis
    using raised [of even_width_handling] returns
      dimW_ensure_even [of t even_width_handling]
    by (simp add: odd_iff_mod_2_eq_one)
qed

theorem odd_width_error_iff_witness:
  "apply_fn (Tensor4 sample_odd) ''sbs_extract_half'' ''left'' ''cross_eyed'' ''skip'' 0
     = Inl (ValueError odd_width_msg) \<and>
   (\<exists>r. apply_fn (Tensor4 sample_odd) ''sbs_extract_half'' ''left'' ''cross_eyed''
           ''auto_crop_if_odd'' 0 = Inr r)"
proof -
  have m: "''sbs_extract_half'' = ''sbs_extract_half'' \<or>
           ''sbs_extract_half'' = ''sbs_copy_half_to_stereo''" by simp
  from odd_width_error_iff [OF m, of sample_odd "''left''" "''cross_eyed''" "''skip''" 0]
  show ?thesis by (simp add: sample_odd_def)
qed

text \<open>
  C10. On an input of even width, in the modes sbs_extract_half and
  sbs_copy_half_to_stereo, every source_half other than the string "left" gives what
  "right" gives, and the call returns a batch: an unknown source_half raises nothing.
\<close>

theorem source_half_not_left_is_right:
  assumes "even (dimW t)"
    and "mode = ''sbs_extract_half'' \<or> mode = ''sbs_copy_half_to_stereo''"
    and "source_half \<noteq> ''left''"
  shows "apply_fn (Tensor4 t) mode source_half output_layout even_width_handling seam_feather
           = apply_fn (Tensor4 t) mode ''right'' output_layout even_width_handling seam_feather \<and>
         (\<exists>r. apply_fn (Tensor4 t) mode source_half output_layout even_width_handling seam_feather
            = Inr r)"
  using assms dimW_ensure_even [of t even_width_handling]
  by (auto simp: apply_fn_def Let_def build_copy_def odd_iff_mod_2_eq_one)

theorem source_half_not_left_is_right_witness:
  "even (dimW sample_sbs) \<and> ''centre'' \<noteq> ''left'' \<and>
   apply_fn (Tensor4 sample_sbs) ''sbs_extract_half'' ''centre'' ''cross_eyed'' ''skip'' 0
     = apply_fn (Tensor4 sample_sbs) ''sbs_extract_half'' ''right'' ''cross_eyed'' ''skip'' 0 \<and>
   (\<exists>r. apply_fn (Tensor4 sample_sbs) ''sbs_extract_half'' ''centre'' ''cross_eyed'' ''skip'' 0
      = Inr r)"
proof -
  have e: "even (dimW sample_sbs)" by (simp add: sample_sbs_def)
  have m: "''sbs_extract_half'' = ''sbs_extract_half'' \<or>
           ''sbs_extract_half'' = ''sbs_copy_half_to_stereo''" by simp
  have s: "''centre'' \<noteq> ''left''" by simp
  from source_half_not_left_is_right [OF e m s, of "''cross_eyed''" "''skip''" 0]
  show ?thesis using e s by blast
qed

lemma build_copy_clone:
  "build_copy output_layout source_half src (clone src) = cat_w src (clone src)"
  by (simp add: build_copy_def clone_def)

lemma build_mono_any: "build_mono output_layout mono_img other = cat_w mono_img other"
  by (simp add: build_mono_def)

text \<open>
  C8. The output_layout parameter has no effect: with everything else fixed, \<open>apply\<close>
  returns the same result (or the same error) for any two layout values, and the
  concatenation built in the modes sbs_copy_half_to_stereo and mono_to_stereo_copy is
  [source, duplicate] under every layout.
\<close>

theorem output_layout_no_effect:
  "apply_fn images_in mode source_half layout1 even_width_handling seam_feather
     = apply_fn images_in mode source_half layout2 even_width_handling seam_feather \<and>
   build_copy layout1 source_half src (clone src) = cat_w src (clone src) \<and>
   build_mono layout1 mono_img (clone mono_img) = cat_w mono_img (clone mono_img)"
  by (simp add: apply_fn_def Let_def build_copy_clone build_mono_any split: image_arg.splits)

section \<open>The range of the samples returned by the stereo node\<close>

lemma in_set_map2D:
  "z \<in> set (map2 f xs ys) \<Longrightarrow> \<exists>x \<in> set xs. \<exists>y \<in> set ys. z = f x y"
  by (auto simp: map2_def dest: set_zip_leftD set_zip_rightD)

lemma in_set_sliceD: "x \<in> set (slice a b xs) \<Longrightarrow> x \<in> set xs"
  by (auto simp: slice_def dest: in_set_takeD in_set_dropD)

lemma in_set_set_sliceD: "x \<in> set (set_slice a b new xs) \<Longrightarrow> x \<in> set xs \<or> x \<in> set new"
  by (auto simp: set_slice_def dest: in_set_takeD in_set_dropD)

lemma all_samples_slice_w: "all_samples P t \<Longrightarrow> all_samples P (slice_w a b t)"
  unfolding all_samples_def slice_w_def by (auto dest: in_set_sliceD)

lemma all_samples_cat_w:
  assumes "all_samples P a" and "all_samples P b"
  shows "all_samples P (cat_w a b)"
  unfolding all_samples_def
proof (intro ballI)
  fix img row px v
  assume img: "img \<in> set (vals (cat_w a b))" and row: "row \<in> set img"
    and px: "px \<in> set row" and v: "v \<in> set px"
  from img obtain ia ib where i: "ia \<in> set (vals a)" "ib \<in> set (vals b)"
    "img = map2 (@) ia ib"
    by (auto simp: cat_w_def dest: in_set_map2D)
  from row i(3) obtain ra rb where r: "ra \<in> set ia" "rb \<in> set ib" "row = ra @ rb"
    by (auto dest: in_set_map2D)
  from px r(3) have "px \<in> set ra \<or> px \<in> set rb" by simp
  then show "P v"
    using assms i r v unfolding all_samples_def by blast
qed

lemma all_samples_assign_w:
  assumes "all_samples P src" and "all_samples P out"
  shows "all_samples P (assign_w a b src out)"
  unfolding all_samples_def
proof (intro ballI)
  fix img row px v
  assume img: "img \<in> set (vals (assign_w a b src out))" and row: "row \<in> set img"
    and px: "px \<in> set row" and v: "v \<in> set px"
  from img obtain io isrc where i: "io \<in> set (vals out)" "isrc \<in> set (vals src)"
    "img = map2 (\<lambda>orow srow. set_slice a b srow orow) io isrc"
    by (auto simp: assign_w_def dest: in_set_map2D)
  from row i(3) obtain ro rs where r: "ro \<in> set io" "rs \<in> set isrc"
    "row = set_slice a b rs ro"
    by (auto dest: in_set_map2D)
  from px r(3) have "px \<in> set ro \<or> px \<in> set rs" by (auto dest: in_set_set_sliceD)
  then show "P v"
    using assms i r v unfolding all_samples_def by blast
qed

lemma is_fin_blend_sample:
  "is_fin l \<Longrightarrow> is_fin k \<Longrightarrow> is_fin (plus_sample (scale l w) (scale k w'))"
  by (cases l; cases k; simp)

lemma all_samples_blend:
  assumes "all_samples is_fin l" and "all_samples is_fin r"
  shows "all_samples is_fin (blend ramp l r)"
  unfolding all_samples_def
proof (intro ballI)
  fix img row px v
  assume img: "img \<in> set (vals (blend ramp l r))" and row: "row \<in> set img"
    and px: "px \<in> set row" and v: "v \<in> set px"
  from img obtain il ir where i: "il \<in> set (vals l)" "ir \<in> set (vals r)"
    "img = map2 (blend_row ramp) il ir"
    by (auto simp: blend_def dest: in_set_map2D)
  from row i(3) obtain rl rr where r: "rl \<in> set il" "rr \<in> set ir"
    "row = blend_row ramp rl rr"
    by (auto dest: in_set_map2D)
  from px r(3) obtain w pl pr where p: "pl \<in> set rl" "pr \<in> set rr"
    "px = blend_px w pl pr"
    by (auto simp: blend_row_def dest!: in_set_map2D dest: set_zip_leftD set_zip_rightD)
  from v p(3) obtain x y where s: "x \<in> set pl" "y \<in> set pr"
    "v = plus_sample (scale x (1 - w)) (scale y w)"
    by (auto simp: blend_px_def dest: in_set_map2D)
  have "is_fin x" using assms(1) i(1) r(1) p(1) s(1) unfolding all_samples_def by blast
  moreover have "is_fin y" using assms(2) i(2) r(2) p(2) s(2) unfolding all_samples_def by blast
  ultimately show "is_fin v" using s(3) by (simp add: is_fin_blend_sample)
qed

lemma finite_seam_feather:
  assumes "all_samples is_fin out"
  shows "all_samples is_fin (seam_feather_fn out f half)"
  using assms
  by (simp add: seam_feather_fn_def Let_def all_samples_assign_w all_samples_blend
      all_samples_slice_w)

lemma unit_or_nan_clamp_sample: "clamp_sample v = NaN \<or> unit_sample (clamp_sample v)"
  by (cases v) simp_all

lemma unit_clamp_sample: "is_fin v \<Longrightarrow> unit_sample (clamp_sample v)"
  by (cases v) simp_all

lemma unit_or_nan_clamp01: "unit_or_nan (clamp01 t)"
  by (auto simp: unit_or_nan_def all_samples_def clamp01_def unit_or_nan_clamp_sample)

lemma in_unit_clamp01: "all_samples is_fin t \<Longrightarrow> in_unit (clamp01 t)"
  by (auto simp: in_unit_def all_samples_def clamp01_def unit_clamp_sample)

lemma finite_ensure_even_width:
  "all_samples is_fin t \<Longrightarrow> all_samples is_fin (ensure_even_width t ewh)"
  by (simp add: ensure_even_width_def all_samples_slice_w)

lemma apply_fn_Inr_cases:
  assumes "apply_fn (Tensor4 t) mode source_half output_layout ewh seam_feather = Inr r"
  shows "\<exists>u. r = clamp01 u \<and> (all_samples is_fin t \<longrightarrow> all_samples is_fin u)"
proof -
  let ?im = "ensure_even_width t ewh"
  have fin: "all_samples is_fin t \<Longrightarrow> all_samples is_fin ?im"
    by (rule finite_ensure_even_width)
  show ?thesis
  proof (cases "mode = ''even_crop_only''")
    case True
    with assms have "r = clamp01 ?im" by (simp add: apply_fn_def Let_def)
    then show ?thesis using fin by blast
  next
    case not_crop: False
    show ?thesis
    proof (cases "mode = ''sbs_extract_half''")
      case True
      with not_crop assms have
        "r = clamp01 (if source_half = ''left'' then slice_w 0 (dimW ?im div 2) ?im
                      else slice_w (dimW ?im div 2) (dimW ?im) ?im)"
        by (simp add: apply_fn_def Let_def split: if_splits)
      then show ?thesis using fin by (auto simp: all_samples_slice_w)
    next
      case not_extract: False
      show ?thesis
      proof (cases "mode = ''sbs_copy_half_to_stereo''")
        case True
        let ?src = "if source_half = ''left'' then slice_w 0 (dimW ?im div 2) ?im
                    else slice_w (dimW ?im div 2) (dimW ?im) ?im"
        let ?out = "seam_feather_fn (build_copy output_layout source_half ?src (clone ?src))
                      seam_feather (dimW ?im div 2)"
        from True not_crop not_extract assms have "r = clamp01 ?out"
          by (simp add: apply_fn_def Let_def split: if_splits)
        moreover have "all_samples is_fin t \<Longrightarrow> all_samples is_fin ?out"
          using fin
          by (intro finite_seam_feather)
            (auto simp: build_copy_def clone_def all_samples_cat_w all_samples_slice_w)
        ultimately show ?thesis by blast
      next
        case not_copy: False
        show ?thesis
        proof (cases "mode = ''mono_to_stereo_copy''")
          case True
          let ?out = "seam_feather_fn (build_mono output_layout ?im (clone ?im))
                        seam_feather (dimW ?im)"
          from True not_crop not_extract not_copy assms have "r = clamp01 ?out"
            by (simp add: apply_fn_def Let_def)
          moreover have "all_samples is_fin t \<Longrightarrow> all_samples is_fin ?out"
            using fin
            by (intro finite_seam_feather) (auto simp: build_mono_def clone_def all_samples_cat_w)
          ultimately show ?thesis by blast
        next
          case False
          with not_crop not_extract not_copy assms show ?thesis by (simp add: apply_fn_def Let_def)
        qed
      qed
    qed
  qed
qed

text \<open>
  C4, as the code has it. Whenever \<open>apply\<close> returns a batch, every sample of it is
  NaN or lies in [0, 1]; when every sample of the input is finite, every sample of the
  result lies in [0, 1], whatever the values of the input were.
\<close>

theorem apply_output_unit_or_nan:
  assumes "apply_fn (Tensor4 t) mode source_half output_layout even_width_handling seam_feather
             = Inr r"
  shows "unit_or_nan r \<and> (finite_samples t \<longrightarrow> in_unit r)"
proof -
  from apply_fn_Inr_cases [OF assms] obtain u where u: "r = clamp01 u"
    "all_samples is_fin t \<longrightarrow> all_samples is_fin u"
    by blast
  show ?thesis
    using u by (auto simp: unit_or_nan_clamp01 in_unit_clamp01 finite_samples_def)
qed

theorem apply_output_unit_or_nan_witness:
  "apply_fn (Tensor4 sample_sbs) ''sbs_copy_half_to_stereo'' ''left'' ''cross_eyed'' ''skip'' 0
     = Inr \<lparr>dimB = 1, dimH = 1, dimW = 2, dimC = 3,
            vals = [[[[Fin 0, Fin 1, Fin (1 / 2)], [Fin 0, Fin 1, Fin (1 / 2)]]]]\<rparr> \<and>
   finite_samples sample_sbs \<and>
   in_unit \<lparr>dimB = 1, dimH = 1, dimW = 2, dimC = 3,
            vals = [[[[Fin 0, Fin 1, Fin (1 / 2)], [Fin 0, Fin 1, Fin (1 / 2)]]]]\<rparr>"
proof -
  have r: "apply_fn (Tensor4 sample_sbs) ''sbs_copy_half_to_stereo'' ''left'' ''cross_eyed''
             ''skip'' 0
     = Inr \<lparr>dimB = 1, dimH = 1, dimW = 2, dimC = 3,
            vals = [[[[Fin 0, Fin 1, Fin (1 / 2)], [Fin 0, Fin 1, Fin (1 / 2)]]]]\<rparr>"
    by (simp add: apply_fn_def sample_sbs_def ensure_even_width_def Let_def slice_w_def slice_def
        clone_def build_copy_def cat_w_def map2_def seam_feather_fn_def clamp01_def)
  have f: "finite_samples sample_sbs"
    by (simp add: finite_samples_def all_samples_def sample_sbs_def)
  from apply_output_unit_or_nan [OF r] show ?thesis using r f by simp
qed


text \<open>
  C4 as stated fails on a batch with a special value: \<open>torch.clamp\<close> keeps a NaN
  sample, and an infinite sample of a seam band times the ramp end 0.0 is NaN before the
  clamp.
\<close>

theorem apply_output_nan_counterexample:
  "apply_fn (Tensor4 sample_nan) ''even_crop_only'' ''left'' ''cross_eyed'' ''skip'' 0
     = Inr sample_nan \<and>
   \<not> in_unit sample_nan \<and>
   apply_fn (Tensor4 sample_inf) ''mono_to_stereo_copy'' ''left'' ''cross_eyed'' ''skip'' 1
     = Inr \<lparr>dimB = 1, dimH = 1, dimW = 2, dimC = 3,
            vals = [[[[NaN, Fin 0, Fin 0], [NaN, Fin 0, Fin 0]]]]\<rparr> \<and>
   \<not> in_unit \<lparr>dimB = 1, dimH = 1, dimW = 2, dimC = 3,
            vals = [[[[NaN, Fin 0, Fin 0], [NaN, Fin 0, Fin 0]]]]\<rparr>"
  by (simp add: apply_fn_def sample_nan_def sample_inf_def ensure_even_width_def Let_def
      clamp01_def in_unit_def all_samples_def build_mono_def clone_def cat_w_def map2_def
      seam_feather_fn_def linspace01_def slice_w_def slice_def assign_w_def set_slice_def
      blend_def blend_row_def blend_px_def)


section \<open>Duplicating a mono frame\<close>













section \<open>The wrap mode is a rotation\<close>

lemma length_roll: "length (roll s xs) = length xs"
  by (simp add: roll_def)

lemma roll_map: "roll s (map f xs) = map f (roll s xs)"
  by (simp add: roll_def rotate_map)

lemma opposite_shifts:
  assumes "0 < n"
  shows "(nat (s mod int n) + nat ((- s) mod int n)) mod n = 0"
proof -
  let ?k = "nat (s mod int n) + nat ((- s) mod int n)"
  have "int ?k = s mod int n + (- s) mod int n" using assms by simp
  then have "int ?k mod int n = (s + - s) mod int n" by (simp add: mod_add_eq)
  then have "int (?k mod n) = 0" by (simp add: zmod_int)
  then show ?thesis by simp
qed

lemma roll_back: "roll (- s) (roll s xs) = xs"
proof (cases "xs = []")
  case True
  then show ?thesis by (simp add: roll_def)
next
  case False
  then have n: "0 < length xs" by simp
  have "roll (- s) (roll s xs)
          = rotate (nat (s mod int (length xs)) + nat ((- s) mod int (length xs))) xs"
    using False by (simp add: roll_def rotate_rotate)
  also have "\<dots> = rotate 0 xs"
    using opposite_shifts [OF n, of s] by (metis rotate_conv_mod)
  finally show ?thesis by simp
qed

lemma roll_rows_back:
  "roll (- sy) (map (roll (- sx)) (roll sy (map (roll sx) img))) = img"
proof -
  have "map (roll (- sx)) (roll sy (map (roll sx) img))
          = roll sy (map (roll (- sx)) (map (roll sx) img))"
    by (simp add: roll_map)
  also have "\<dots> = roll sy img" by (simp add: roll_back cong: map_cong)
  finally show ?thesis by (simp add: roll_back)
qed

lemma roll_hw_back: "roll_hw (- sy) (- sx) (roll_hw sy sx t) = t"
  by (simp add: roll_hw_def comp_def roll_rows_back)

lemma py_round_of_int: "py_round (of_int x) = x"
  by (simp add: py_round_def)

lemma normalize_px_small:
  assumes "2 * \<bar>x\<bar> < int n"
  shows "normalize_px n x = x"
proof (cases "0 \<le> x")
  case True
  with assms have "x mod int n = x" by simp
  moreover from True assms have "\<not> int n div 2 < x" by linarith
  moreover from assms have "n \<noteq> 0" by auto
  ultimately show ?thesis by (simp add: normalize_px_def Let_def)
next
  case False
  with assms have "0 \<le> x + int n" "x + int n < int n" by linarith+
  then have "(x + int n) mod int n = x + int n" by (rule mod_pos_pos_trivial)
  then have m: "x mod int n = x + int n" by simp
  moreover from False assms have "int n div 2 < x + int n" by linarith
  moreover from assms have "n \<noteq> 0" by auto
  ultimately show ?thesis by (simp add: normalize_px_def Let_def)
qed

lemma resolved_px_pixels:
  assumes "2 * \<bar>x\<bar> < int n"
  shows "resolved_px False ''pixels'' (of_int x) n = x"
  using normalize_px_small [OF assms] by (simp add: resolved_px_def raw_px_def py_round_of_int)

text \<open>
  C3. On a 3-channel batch, for integer pixel offsets (x, y) with |x| < W/2 and
  |y| < H/2, \<open>offset\<close> in wrap mode by (x, y) returns a batch on which \<open>offset\<close> in wrap
  mode by (-x, -y) returns the original batch.
\<close>

theorem wrap_round_trip:
  assumes "dimC t = 3"
    and "2 * \<bar>x\<bar> < int (dimW t)"
    and "2 * \<bar>y\<bar> < int (dimH t)"
  shows "\<exists>t1. offset (Tensor4 t) ''pixels'' (of_int x) (of_int y) False False ''wrap''
                 fill_r fill_g fill_b = Inr t1 \<and>
              offset (Tensor4 t1) ''pixels'' (of_int (- x)) (of_int (- y)) False False ''wrap''
                 fill_r' fill_g' fill_b' = Inr t"
proof -
  have rx: "resolved_px False ''pixels'' (of_int x) (dimW t) = x"
    and ry: "resolved_px False ''pixels'' (of_int y) (dimH t) = y"
    using assms by (simp_all add: resolved_px_pixels)
  have bx: "resolved_px False ''pixels'' (of_int (- x)) (dimW t) = - x"
    and by': "resolved_px False ''pixels'' (of_int (- y)) (dimH t) = - y"
    using assms by (simp_all only: resolved_px_pixels abs_minus_cancel)
  show ?thesis
  proof (cases "x = 0 \<and> y = 0")
    case True
    with assms(1) rx ry show ?thesis by (simp add: offset_def Let_def)
  next
    case False
    let ?t1 = "roll_hw y x t"
    have d: "dimC ?t1 = 3" "dimW ?t1 = dimW t" "dimH ?t1 = dimH t"
      using assms(1) by (simp_all add: roll_hw_def)
    have first: "offset (Tensor4 t) ''pixels'' (of_int x) (of_int y) False False ''wrap''
                   fill_r fill_g fill_b = Inr ?t1"
      using False assms(1) rx ry by (auto simp: offset_def Let_def)
    have "offset (Tensor4 ?t1) ''pixels'' (of_int (- x)) (of_int (- y)) False False ''wrap''
            fill_r' fill_g' fill_b' = Inr (roll_hw (- y) (- x) ?t1)"
      using False bx by' by (auto simp: offset_def Let_def d)
    then have "offset (Tensor4 ?t1) ''pixels'' (of_int (- x)) (of_int (- y)) False False ''wrap''
            fill_r' fill_g' fill_b' = Inr t"
      by (simp only: roll_hw_back)
    with first show ?thesis by blast
  qed
qed

theorem wrap_round_trip_witness:
  "dimC sample_odd = 3 \<and> 2 * \<bar>1\<bar> < int (dimW sample_odd) \<and>
   2 * \<bar>0\<bar> < int (dimH sample_odd) \<and>
   offset (Tensor4 sample_odd) ''pixels'' 1 0 False False ''wrap'' 0 0 0
     = Inr \<lparr>dimB = 1, dimH = 1, dimW = 3, dimC = 3,
            vals = [[[[Fin 1, Fin 1, Fin 1], [Fin 0, Fin 1, Fin (1 / 2)],
                      [Fin 1, Fin (1 / 4), Fin 0]]]]\<rparr> \<and>
   offset (Tensor4 \<lparr>dimB = 1, dimH = 1, dimW = 3, dimC = 3,
            vals = [[[[Fin 1, Fin 1, Fin 1], [Fin 0, Fin 1, Fin (1 / 2)],
                      [Fin 1, Fin (1 / 4), Fin 0]]]]\<rparr>)
       ''pixels'' (- 1) 0 False False ''wrap'' 0 0 0
     = Inr sample_odd"
proof -
  have c: "dimC sample_odd = 3" and w: "2 * \<bar>1\<bar> < int (dimW sample_odd)"
    and h: "2 * \<bar>0\<bar> < int (dimH sample_odd)"
    by (simp_all add: sample_odd_def)
  have r: "resolved_px False ''pixels'' 1 3 = 1" "resolved_px False ''pixels'' 0 (Suc 0) = 0"
    by (simp_all add: resolved_px_def raw_px_def normalize_px_def py_round_def Let_def)
  have first: "offset (Tensor4 sample_odd) ''pixels'' 1 0 False False ''wrap'' 0 0 0
     = Inr \<lparr>dimB = 1, dimH = 1, dimW = 3, dimC = 3,
            vals = [[[[Fin 1, Fin 1, Fin 1], [Fin 0, Fin 1, Fin (1 / 2)],
                      [Fin 1, Fin (1 / 4), Fin 0]]]]\<rparr>"
  proof -
    have d: "dimC sample_odd = 3" "dimW sample_odd = 3" "dimH sample_odd = 1"
      by (simp_all add: sample_odd_def)
    have "offset (Tensor4 sample_odd) ''pixels'' 1 0 False False ''wrap'' 0 0 0
            = Inr (roll_hw 0 1 sample_odd)"
      by (simp add: offset_def d r Let_def)
    moreover have "nat (- 1 mod 3) = Suc (Suc 0)" by simp
    then have "roll_hw 0 1 sample_odd
            = \<lparr>dimB = 1, dimH = 1, dimW = 3, dimC = 3,
               vals = [[[[Fin 1, Fin 1, Fin 1], [Fin 0, Fin 1, Fin (1 / 2)],
                         [Fin 1, Fin (1 / 4), Fin 0]]]]\<rparr>"
      by (simp add: roll_hw_def roll_def sample_odd_def rotate_drop_take)
    ultimately show ?thesis by simp
  qed
  from wrap_round_trip [OF c w h, of 0 0 0 0 0 0]
  show ?thesis using c w h first by simp
qed


section \<open>Seam feathering\<close>


















section \<open>Shifting right over the fill color\<close>

lemma map2_replicate_left:
  "length ys = n \<Longrightarrow> map2 f (replicate n a) ys = map (f a) ys"
  by (induction ys arbitrary: n) (auto simp: map2_def)

lemma slice_replicate: "slice a b (replicate n x) = replicate (min b n - min a n) x"
  by (auto simp: slice_def min_def)

lemma set_slice_whole: "length xs \<le> b \<Longrightarrow> set_slice 0 b new xs = new"
  by (simp add: set_slice_def)

lemma map_const_replicate: "map (\<lambda>_. c) xs = replicate (length xs) c"
  by (induction xs) simp_all

lemma vals_assign_full:
  assumes "length (vals src) = B" and "\<forall>simg \<in> set (vals src). length simg = H"
  shows "vals (assign_hw 0 H a b src (full B H W px))
           = map (map (\<lambda>srow. set_slice a b srow (replicate W px))) (vals src)"
proof -
  let ?crow = "replicate W px"
  let ?g = "\<lambda>orow srow. set_slice a b srow orow"
  have img: "set_slice 0 H (map2 ?g (slice 0 H (replicate H ?crow)) simg) (replicate H ?crow)
               = map (\<lambda>srow. set_slice a b srow ?crow) simg"
    if "length simg = H" for simg :: "sample list list list"
    using that by (simp add: slice_replicate map2_replicate_left set_slice_whole)
  have "vals (assign_hw 0 H a b src (full B H W px))
          = map (\<lambda>simg. set_slice 0 H (map2 ?g (slice 0 H (replicate H ?crow)) simg)
                            (replicate H ?crow)) (vals src)"
    using assms(1) by (simp add: assign_hw_def full_def map2_replicate_left)
  also have "\<dots> = map (map (\<lambda>srow. set_slice a b srow ?crow)) (vals src)"
    using assms(2) by (intro map_cong refl img) simp
  finally show ?thesis .
qed

lemma vals_slice_hw_rows:
  assumes "wf t"
  shows "vals (slice_hw 0 (dimH t) 0 c t) = map (map (slice 0 c)) (vals t)"
proof -
  have "slice 0 (dimH t) img = img" if "img \<in> set (vals t)" for img
    using assms that by (simp add: wf_def slice_def)
  then show ?thesis by (simp add: slice_hw_def cong: map_cong)
qed

lemma vals_shift_right:
  assumes "wf t" and "n \<le> dimW t"
  shows "vals (assign_hw 0 (dimH t) n (dimW t) (slice_hw 0 (dimH t) 0 (dimW t - n) t)
                 (full (dimB t) (dimH t) (dimW t) px))
           = map (map (\<lambda>row. replicate n px @ take (dimW t - n) row)) (vals t)"
proof -
  let ?src = "slice_hw 0 (dimH t) 0 (dimW t - n) t"
  have v: "vals ?src = map (map (slice 0 (dimW t - n))) (vals t)"
    using assms(1) by (rule vals_slice_hw_rows)
  have l: "length (vals ?src) = dimB t" using assms(1) by (simp add: v wf_def)
  have h: "\<forall>simg \<in> set (vals ?src). length simg = dimH t"
    using assms(1) by (auto simp: v wf_def)
  have "set_slice n (dimW t) (slice 0 (dimW t - n) row) (replicate (dimW t) px)
          = replicate n px @ take (dimW t - n) row" for row :: "sample list list"
    using assms(2) by (simp add: set_slice_def slice_def min_def)
  then show ?thesis
    by (simp add: vals_assign_full [OF l h] v comp_def)
qed

lemma const_rows:
  assumes "wf t"
  shows "map (map (\<lambda>_. c)) (vals t) = replicate (dimB t) (replicate (dimH t) c)"
proof -
  have "map (map (\<lambda>_. c)) (vals t) = map (\<lambda>_. replicate (dimH t) c) (vals t)"
    using assms by (intro map_cong refl) (simp add: map_const_replicate wf_def)
  then show ?thesis using assms by (simp add: map_const_replicate wf_def)
qed

lemma slice_w_full:
  "slice_w a b (full B H W px) = full B H (min b W - min a W) px"
  by (simp add: slice_w_def full_def slice_replicate)

lemma slice_w_no_samples:
  assumes "wf t" and "dimC t = length px" and "dimH t = 0 \<or> c = 0"
  shows "slice_w 0 c t = full (dimB t) (dimH t) (min c (dimW t)) px"
proof (rule tensor.equality)
  have "vals (slice_w 0 c t) = map (map (slice 0 c)) (vals t)"
    by (simp add: slice_w_def)
  also have "\<dots> = map (map (\<lambda>_. replicate (min c (dimW t)) px)) (vals t)"
    using assms(1,3) by (intro map_cong refl) (auto simp: wf_def slice_def)
  also have "\<dots> = replicate (dimB t) (replicate (dimH t) (replicate (min c (dimW t)) px))"
    by (rule const_rows [OF assms(1)])
  also have "\<dots> = vals (full (dimB t) (dimH t) (min c (dimW t)) px)"
    by (simp add: full_def)
  finally show "vals (slice_w 0 c t) = vals (full (dimB t) (dimH t) (min c (dimW t)) px)" .
qed (simp_all add: slice_w_def full_def assms(2))

lemma no_rows_map:
  assumes "wf t" and "dimH t = 0"
  shows "map (map f) (vals t) = map (map g) (vals t)"
  using assms by (intro map_cong refl) (auto simp: wf_def)

lemma vals_fill_shift:
  assumes "wf t" and "dimC t = 3" and "0 < x"
    and "resolved_px auto_half_width units x_offset (dimW t) = x"
    and "resolved_px auto_half_height units y_offset (dimH t) = 0"
  shows "\<exists>out. offset (Tensor4 t) units x_offset y_offset auto_half_width auto_half_height
                  ''fill_color'' fill_r fill_g fill_b = Inr out \<and>
               dimB out = dimB t \<and> dimH out = dimH t \<and> dimW out = dimW t \<and> dimC out = 3 \<and>
               vals out = map (map (\<lambda>row. replicate (min (nat x) (dimW t))
                                              [Fin fill_r, Fin fill_g, Fin fill_b]
                                            @ take (dimW t - nat x) row)) (vals t)"
proof -
  let ?px = "[Fin fill_r, Fin fill_g, Fin fill_b]"
  let ?n = "nat x"
  let ?cv = "full (dimB t) (dimH t) (dimW t) ?px"
  let ?f = "\<lambda>row. replicate (min ?n (dimW t)) ?px @ take (dimW t - ?n) row"
  let ?call = "offset (Tensor4 t) units x_offset y_offset auto_half_width auto_half_height
                 ''fill_color'' fill_r fill_g fill_b"
  have cvals: "vals ?cv = map (map (\<lambda>_. replicate (dimW t) ?px)) (vals t)"
    by (simp add: full_def const_rows [OF assms(1)])
  show ?thesis
  proof (cases "copy_len (dimW t) x \<le> 0 \<or> copy_len (dimH t) 0 \<le> 0")
    case True
    have r: "?call = Inr ?cv"
      using assms(2,3,4,5) True by (simp add: offset_def Let_def canvas_def)
    have "vals ?cv = map (map ?f) (vals t)"
    proof (cases "dimH t = 0")
      case True
      show ?thesis unfolding cvals by (rule no_rows_map [OF assms(1) True])
    next
      case False
      with \<open>copy_len (dimW t) x \<le> 0 \<or> copy_len (dimH t) 0 \<le> 0\<close> assms(3)
      have "dimW t \<le> ?n" by (simp add: copy_len_def)
      then show ?thesis unfolding cvals by (simp add: min_def)
    qed
    with r show ?thesis by (simp add: full_def)
  next
    case False
    then have "x < int (dimW t)" and h: "0 < dimH t"
      using assms(3) by (simp_all add: copy_len_def)
    then have lt: "?n < dimW t" using assms(3) by linarith
    have r: "?call = Inr (paste ?cv t x 0)"
      using assms(2,3,4,5) False by (simp add: offset_def Let_def canvas_def)
    have wc: "nat (int (dimW t) - x) = dimW t - ?n" using assms(3) by simp
    have p: "paste ?cv t x 0
               = assign_hw 0 (dimH t) ?n (dimW t) (slice_hw 0 (dimH t) 0 (dimW t - ?n) t) ?cv"
      using assms(3) lt by (simp add: paste_def Let_def src0_def dst0_def copy_len_def wc)
    have v: "vals (paste ?cv t x 0) = map (map ?f) (vals t)"
      using lt by (simp add: p vals_shift_right [OF assms(1)] min_def)
    have d: "dimB (paste ?cv t x 0) = dimB t" "dimH (paste ?cv t x 0) = dimH t"
      "dimW (paste ?cv t x 0) = dimW t" "dimC (paste ?cv t x 0) = 3"
      unfolding p by (simp_all add: assign_hw_def full_def)
    show ?thesis using r v d by simp
  qed
qed

text \<open>
  C2. On a batch of three channels with edge_mode fill_color, when the resolved offsets
  are \<open>x_px > 0\<close> and \<open>y_px = 0\<close>, \<open>offset\<close> returns a batch of the shape of the input
  whose columns \<open>[0, x_px)\<close> hold the fill color (fill_r, fill_g, fill_b) at every batch
  index and row, and whose columns \<open>[x_px, W)\<close> are the columns \<open>[0, W - x_px)\<close> of the
  input.
\<close>

theorem fill_color_shift_right:
  assumes "wf t" and "dimC t = 3" and "0 < x"
    and "resolved_px auto_half_width units x_offset (dimW t) = x"
    and "resolved_px auto_half_height units y_offset (dimH t) = 0"
  shows "\<exists>out. offset (Tensor4 t) units x_offset y_offset auto_half_width auto_half_height
                  ''fill_color'' fill_r fill_g fill_b = Inr out \<and>
               dimB out = dimB t \<and> dimH out = dimH t \<and> dimW out = dimW t \<and> dimC out = 3 \<and>
               slice_w 0 (nat x) out
                 = full (dimB t) (dimH t) (min (nat x) (dimW t))
                     [Fin fill_r, Fin fill_g, Fin fill_b] \<and>
               slice_w (nat x) (dimW t) out = slice_w 0 (dimW t - nat x) t"
proof -
  let ?px = "[Fin fill_r, Fin fill_g, Fin fill_b]"
  let ?n = "nat x"
  let ?m = "min ?n (dimW t)"
  from vals_fill_shift [OF assms, of fill_r fill_g fill_b]
  obtain out where r: "offset (Tensor4 t) units x_offset y_offset auto_half_width
          auto_half_height ''fill_color'' fill_r fill_g fill_b = Inr out"
    and d: "dimB out = dimB t" "dimH out = dimH t" "dimW out = dimW t" "dimC out = 3"
    and v: "vals out = map (map (\<lambda>row. replicate ?m ?px @ take (dimW t - ?n) row)) (vals t)"
    by blast
  have a: "slice_w 0 ?n out = full (dimB t) (dimH t) ?m ?px"
  proof (rule tensor.equality)
    have "slice 0 ?n (replicate ?m ?px @ take (dimW t - ?n) row) = replicate ?m ?px"
      for row :: "sample list list"
      by (simp add: slice_def min_def)
    then have "vals (slice_w 0 ?n out) = map (map (\<lambda>_. replicate ?m ?px)) (vals t)"
      by (simp add: slice_w_def v comp_def)
    also have "\<dots> = replicate (dimB t) (replicate (dimH t) (replicate ?m ?px))"
      by (rule const_rows [OF assms(1)])
    also have "\<dots> = vals (full (dimB t) (dimH t) ?m ?px)" by (simp add: full_def)
    finally show "vals (slice_w 0 ?n out) = vals (full (dimB t) (dimH t) ?m ?px)" .
  qed (simp_all add: slice_w_def full_def d)
  have b: "slice_w ?n (dimW t) out = slice_w 0 (dimW t - ?n) t"
  proof (rule tensor.equality)
    have "slice ?n (dimW t) (replicate ?m ?px @ take (dimW t - ?n) row)
            = slice 0 (dimW t - ?n) row" for row :: "sample list list"
      by (simp add: slice_def min_def)
    then show "vals (slice_w ?n (dimW t) out) = vals (slice_w 0 (dimW t - ?n) t)"
      by (simp add: slice_w_def v comp_def)
  qed (simp_all add: slice_w_def d assms(2) min_def)
  show ?thesis using r d a b by blast
qed

theorem fill_color_shift_right_witness:
  "wf sample_sbs \<and> dimC sample_sbs = 3 \<and> (0::int) < 1 \<and>
   resolved_px False ''pixels'' 1 (dimW sample_sbs) = 1 \<and>
   resolved_px False ''pixels'' 0 (dimH sample_sbs) = 0 \<and>
   offset (Tensor4 sample_sbs) ''pixels'' 1 0 False False ''fill_color'' (1 / 4) (1 / 2) (3 / 4)
     = Inr \<lparr>dimB = 1, dimH = 1, dimW = 2, dimC = 3,
            vals = [[[[Fin (1 / 4), Fin (1 / 2), Fin (3 / 4)],
                      [Fin (- 1), Fin 2, Fin (1 / 2)]]]]\<rparr> \<and>
   (\<exists>out. offset (Tensor4 sample_sbs) ''pixels'' 1 0 False False ''fill_color''
             (1 / 4) (1 / 2) (3 / 4) = Inr out \<and>
          slice_w 0 1 out = full 1 1 1 [Fin (1 / 4), Fin (1 / 2), Fin (3 / 4)] \<and>
          slice_w 1 2 out = slice_w 0 1 sample_sbs)"
proof -
  have wf: "wf sample_sbs" by (simp add: wf_def sample_sbs_def)
  have c: "dimC sample_sbs = 3" by (simp add: sample_sbs_def)
  have d: "dimB sample_sbs = 1" "dimH sample_sbs = 1" "dimW sample_sbs = 2"
    by (simp_all add: sample_sbs_def)
  have x: "resolved_px False ''pixels'' 1 (dimW sample_sbs) = 1"
    by (simp add: d resolved_px_def raw_px_def normalize_px_def py_round_def Let_def)
  have y: "resolved_px False ''pixels'' 0 (dimH sample_sbs) = 0"
    by (simp add: d resolved_px_def raw_px_def normalize_px_def py_round_def Let_def)
  have p: "(0::int) < 1" by simp
  have o: "offset (Tensor4 sample_sbs) ''pixels'' 1 0 False False ''fill_color''
             (1 / 4) (1 / 2) (3 / 4)
     = Inr \<lparr>dimB = 1, dimH = 1, dimW = 2, dimC = 3,
            vals = [[[[Fin (1 / 4), Fin (1 / 2), Fin (3 / 4)],
                      [Fin (- 1), Fin 2, Fin (1 / 2)]]]]\<rparr>"
    using x y
    by (simp add: offset_def c d Let_def canvas_def copy_len_def paste_def src0_def dst0_def
        full_def sample_sbs_def assign_hw_def slice_hw_def slice_def set_slice_def map2_def)
  from fill_color_shift_right [OF wf c p x y, of "1 / 4" "1 / 2" "3 / 4"]
  have "\<exists>out. offset (Tensor4 sample_sbs) ''pixels'' 1 0 False False ''fill_color''
             (1 / 4) (1 / 2) (3 / 4) = Inr out \<and>
          slice_w 0 1 out = full 1 1 1 [Fin (1 / 4), Fin (1 / 2), Fin (3 / 4)] \<and>
          slice_w 1 2 out = slice_w 0 1 sample_sbs"
    by (simp add: d, blast)
  with wf c p x y o show ?thesis by blast
qed

end
